theory Spec2Isabelle
  imports Main "HOL-Library.Multiset"
begin

section \<open>Data model (src/types.ts)\<close>

text \<open>
  A \<^verbatim>\<open>Task\<close> has the five fields of the interface in \<^verbatim>\<open>types.ts\<close>. The fields
  \<^verbatim>\<open>id\<close> and \<^verbatim>\<open>text\<close> are called \<open>task_id\<close> and \<open>task_text\<close> here, since \<open>id\<close> is the
  identity function of HOL and \<open>text\<close> is a command of the theory language.
  Timestamps are milliseconds since the epoch, so \<^verbatim>\<open>number\<close> is \<open>int\<close>; the optional
  \<^verbatim>\<open>dueDate?: number\<close> is \<open>int option\<close>, with \<open>None\<close> for \<^verbatim>\<open>undefined\<close>. The time of
  an invalid date, \<^verbatim>\<open>NaN\<close>, is \<open>None\<close> as well: the code reads a due date only through
  its truthiness before it uses it, and both are falsy.
\<close>

record Task =
  task_id :: string
  task_text :: string
  completed :: bool
  createdAt :: int
  dueDate :: "int option"

text \<open>
  The three values of \<^verbatim>\<open>FilterType\<close>, prefixed because \<open>ALL\<close> is the ASCII form of the
  universal quantifier of HOL.
\<close>

datatype FilterType = F_ALL | F_ACTIVE | F_COMPLETED

section \<open>The pieces of the JavaScript runtime the code calls\<close>

subsection \<open>Truthiness\<close>

text \<open>
  \<^verbatim>\<open>if (s)\<close> on a string is false exactly for the empty string; \<^verbatim>\<open>if (n)\<close> on a
  \<^verbatim>\<open>number | undefined\<close> is false for \<^verbatim>\<open>undefined\<close> and for \<^verbatim>\<open>0\<close>.
\<close>

definition truthy_str :: "string \<Rightarrow> bool" where
  "truthy_str s = (s \<noteq> [])"

definition truthy_num :: "int option \<Rightarrow> bool" where
  "truthy_num v = (case v of None \<Rightarrow> False | Some n \<Rightarrow> n \<noteq> 0)"

text \<open>
  The numeric value of an operand of \<^verbatim>\<open>-\<close>. The code subtracts two due dates only after
  testing both for truthiness, so the value given to \<^verbatim>\<open>undefined\<close> is never used.
\<close>

definition num_of :: "int option \<Rightarrow> int" where
  "num_of v = (case v of None \<Rightarrow> 0 | Some n \<Rightarrow> n)"

subsection \<open>String.prototype.trim\<close>

text \<open>
  Strings are lists of 8-bit code units. The white space and line terminators of
  ECMAScript in that range are TAB, LF, VT, FF, CR, SP and NBSP.
\<close>

definition isWhiteSpace :: "char \<Rightarrow> bool" where
  "isWhiteSpace c =
     (c = CHR 0x09 \<or> c = CHR 0x0A \<or> c = CHR 0x0B \<or> c = CHR 0x0C \<or> c = CHR 0x0D \<or>
      c = CHR 0x20 \<or> c = CHR 0xA0)"

definition trim :: "string \<Rightarrow> string" where
  "trim s = rev (dropWhile isWhiteSpace (rev (dropWhile isWhiteSpace s)))"

subsection \<open>String(n) and padStart\<close>

definition digit_char :: "nat \<Rightarrow> char" where
  "digit_char k = ''0123456789'' ! (k mod 10)"

fun digits :: "nat \<Rightarrow> string" where
  "digits n = (if n < 10 then [digit_char n] else digits (n div 10) @ [digit_char (n mod 10)])"

declare digits.simps [simp del]

definition String_of :: "int \<Rightarrow> string" where
  "String_of n = (if n < 0 then CHR ''-'' # digits (nat (- n)) else digits (nat n))"

definition padStart :: "nat \<Rightarrow> char \<Rightarrow> string \<Rightarrow> string" where
  "padStart n c s = replicate (n - length s) c @ s"

subsection \<open>Date\<close>

text \<open>
  The calendar of \<^verbatim>\<open>Date\<close> depends on the time zone of the browser, so it is a parameter
  of the model: \<open>getFullYear\<close>, \<open>getMonth\<close> and \<open>getDate\<close> are the local calendar fields
  of \<^verbatim>\<open>new Date(ts)\<close>, and \<open>newDate y mi d\<close> is \<^verbatim>\<open>new Date(y, mi, d).getTime()\<close> for
  integers, \<open>None\<close> when the date is invalid and the time \<^verbatim>\<open>NaN\<close>. \<open>newDateOther\<close> is
  explained with \<open>dateInputTime\<close> below.
\<close>

record Runtime =
  getFullYear :: "int \<Rightarrow> int"
  getMonth :: "int \<Rightarrow> int"
  getDate :: "int \<Rightarrow> int"
  newDate :: "int \<Rightarrow> int \<Rightarrow> int \<Rightarrow> int option"
  newDateOther :: "string \<Rightarrow> int option"

text \<open>
  The rendering \<^verbatim>\<open>`${y}-${m}-${d}`\<close> of a time stamp, written out three times in the
  source (\<^verbatim>\<open>getTodayDate\<close>, the date filter, \<^verbatim>\<open>getInputValue\<close>).
\<close>

definition ymd :: "Runtime \<Rightarrow> int \<Rightarrow> string" where
  "ymd rt ts =
     (let y = getFullYear rt ts;
          m = padStart 2 CHR ''0'' (String_of (getMonth rt ts + 1));
          d = padStart 2 CHR ''0'' (String_of (getDate rt ts))
      in String_of y @ ''-'' @ m @ ''-'' @ d)"

subsection \<open>From the value of a date input to a time\<close>

text \<open>\<^verbatim>\<open>s.split(c)\<close> for a separator of one character.\<close>

fun split_on :: "char \<Rightarrow> string \<Rightarrow> string list" where
  "split_on c [] = [[]]"
| "split_on c (x # xs) =
     (if x = c then [] # split_on c xs
      else (case split_on c xs of [] \<Rightarrow> [[x]] | r # rs \<Rightarrow> (x # r) # rs))"

definition isDigit :: "char \<Rightarrow> bool" where
  "isDigit c = (48 \<le> (of_char c :: nat) \<and> (of_char c :: nat) \<le> 57)"

text \<open>
  \<^verbatim>\<open>Number(s)\<close> for a string of decimal digits: its decimal value, 0 for the empty
  string. \<open>None\<close> is for every other string; there \<^verbatim>\<open>Number\<close> gives \<^verbatim>\<open>NaN\<close> or reads
  a sign, a point, an exponent, a radix prefix or white space around the number.
\<close>

definition Number_of :: "string \<Rightarrow> int option" where
  "Number_of s =
     (if list_all isDigit s then Some (foldl (\<lambda>n c. 10 * n + (of_char c - 48)) 0 s)
      else None)"

text \<open>
  The two lines that \<open>addTask\<close> and \<open>handleSave\<close> share,
  \<^verbatim>\<open>const [y, m, d] = s.split('-').map(Number); new Date(y, m - 1, d).getTime()\<close>.
  With fewer than three fields \<^verbatim>\<open>d\<close> is \<^verbatim>\<open>undefined\<close> and the date invalid; fields
  after the third are not read. Where one of the three fields is not a string of
  decimal digits, which the value of a date input never has, the result is left to the
  runtime as \<open>newDateOther s\<close>.
\<close>

definition dateInputTime :: "Runtime \<Rightarrow> string \<Rightarrow> int option" where
  "dateInputTime rt s =
     (case split_on CHR ''-'' s of
        ys # ms # ds # _ \<Rightarrow>
          (case (Number_of ys, Number_of ms, Number_of ds) of
             (Some y, Some m, Some d) \<Rightarrow> newDate rt y (m - 1) d
           | _ \<Rightarrow> newDateOther rt s)
      | _ \<Rightarrow> None)"

section \<open>Task store (src/App.tsx)\<close>

text \<open>
  Each operation is the function handed to \<^verbatim>\<open>setTasks\<close>, from the previous list to the
  next. \<open>uuid\<close> is the value of \<^verbatim>\<open>crypto.randomUUID()\<close> and \<open>now\<close> that of
  \<^verbatim>\<open>Date.now()\<close>; \<open>dateStr\<close> is \<open>None\<close> where the caller passes no second argument.
\<close>

definition addTask ::
  "Runtime \<Rightarrow> string \<Rightarrow> int \<Rightarrow> string \<Rightarrow> string option \<Rightarrow> Task list \<Rightarrow> Task list" where
  "addTask rt uuid now txt dateStr prev =
     (if \<not> truthy_str (trim txt) then prev
      else
        let dueDate =
              (case dateStr of
                 None \<Rightarrow> None
               | Some s \<Rightarrow> if truthy_str s then dateInputTime rt s else None);
            newTask = \<lparr>task_id = uuid, task_text = trim txt, completed = False,
                       createdAt = now, dueDate = dueDate\<rparr>
        in newTask # prev)"

definition toggleTask :: "string \<Rightarrow> Task list \<Rightarrow> Task list" where
  "toggleTask i prev =
     map (\<lambda>t. if task_id t = i then t\<lparr>completed := \<not> completed t\<rparr> else t) prev"

definition deleteTask :: "string \<Rightarrow> Task list \<Rightarrow> Task list" where
  "deleteTask i prev = filter (\<lambda>t. task_id t \<noteq> i) prev"

definition editTask :: "string \<Rightarrow> string \<Rightarrow> int option \<Rightarrow> Task list \<Rightarrow> Task list" where
  "editTask i newText newDueDate prev =
     map (\<lambda>t. if task_id t = i then t\<lparr>task_text := newText, dueDate := newDueDate\<rparr> else t) prev"

section \<open>The task row (components/TaskItem)\<close>

text \<open>
  The local state of one row: \<^verbatim>\<open>isEditing\<close>, \<^verbatim>\<open>editText\<close> and \<^verbatim>\<open>editDate\<close>. The row
  gets its task and the store's \<open>editTask\<close> as \<^verbatim>\<open>onEdit\<close>, so \<open>handleSave\<close> maps the
  row state and the task list to the next row state and the next task list.
\<close>

record ItemState =
  isEditing :: bool
  editText :: string
  editDate :: string

definition getInputValue :: "Runtime \<Rightarrow> int option \<Rightarrow> string" where
  "getInputValue rt ts = (if \<not> truthy_num ts then [] else ymd rt (num_of ts))"

definition handleSave :: "Runtime \<Rightarrow> Task \<Rightarrow> ItemState \<Rightarrow> Task list \<Rightarrow> ItemState \<times> Task list" where
  "handleSave rt task st tasks =
     (if truthy_str (trim (editText st)) then
        let newDueDate =
              (if truthy_str (editDate st) then dateInputTime rt (editDate st) else None)
        in (st\<lparr>isEditing := False\<rparr>, editTask (task_id task) (trim (editText st)) newDueDate tasks)
      else
        (st\<lparr>editText := task_text task, editDate := getInputValue rt (dueDate task),
            isEditing := False\<rparr>, tasks))"

section \<open>Arrays of the JavaScript heap\<close>

text \<open>
  \<^verbatim>\<open>Array.prototype.filter\<close> allocates a new array and \<^verbatim>\<open>Array.prototype.sort\<close> sorts
  the array it is called on in place and returns that same array, so the derivation
  pipeline is modelled over a heap of arrays: \<open>cells h a\<close> is the content of the array
  at address \<open>a\<close> and \<open>fresh h\<close> the next unused address.
\<close>

type_synonym addr = nat

record Heap =
  cells :: "addr \<Rightarrow> Task list"
  fresh :: addr

definition array_filter :: "(Task \<Rightarrow> bool) \<Rightarrow> addr \<Rightarrow> Heap \<Rightarrow> addr \<times> Heap" where
  "array_filter p a h =
     (fresh h, h\<lparr>cells := (cells h)(fresh h := filter p (cells h a)), fresh := Suc (fresh h)\<rparr>)"

text \<open>
  The sort of ECMAScript is stable and, for a consistent comparator, returns the one
  stable ordering of its input; insertion from the right computes it. An element goes in
  front of \<open>y\<close> when the comparator does not put it after \<open>y\<close> (result \<open>\<le> 0\<close>).
\<close>

fun insert_by :: "('a \<Rightarrow> 'a \<Rightarrow> int) \<Rightarrow> 'a \<Rightarrow> 'a list \<Rightarrow> 'a list" where
  "insert_by c x [] = [x]"
| "insert_by c x (y # ys) = (if c x y \<le> 0 then x # y # ys else y # insert_by c x ys)"

fun sort_by :: "('a \<Rightarrow> 'a \<Rightarrow> int) \<Rightarrow> 'a list \<Rightarrow> 'a list" where
  "sort_by c [] = []"
| "sort_by c (x # xs) = insert_by c x (sort_by c xs)"

definition array_sort :: "(Task \<Rightarrow> Task \<Rightarrow> int) \<Rightarrow> addr \<Rightarrow> Heap \<Rightarrow> addr \<times> Heap" where
  "array_sort c a h = (a, h\<lparr>cells := (cells h)(a := sort_by c (cells h a))\<rparr>)"

section \<open>Derivation pipeline (filteredTasks in src/App.tsx)\<close>

definition dateMatches :: "Runtime \<Rightarrow> string \<Rightarrow> Task \<Rightarrow> bool" where
  "dateMatches rt filterDate t =
     (if \<not> truthy_num (dueDate t) then False
      else ymd rt (num_of (dueDate t)) = filterDate)"

definition compareTasks :: "FilterType \<Rightarrow> string \<Rightarrow> Task \<Rightarrow> Task \<Rightarrow> int" where
  "compareTasks flt filterDate a b =
     (if flt = F_ALL \<and> completed a \<noteq> completed b then (if completed a then 1 else - 1)
      else if truthy_str filterDate then createdAt b - createdAt a
      else if truthy_num (dueDate a) \<and> truthy_num (dueDate b)
        then num_of (dueDate a) - num_of (dueDate b)
      else if truthy_num (dueDate a) then - 1
      else if truthy_num (dueDate b) then 1
      else createdAt b - createdAt a)"

text \<open>
  \<open>tasks\<close> is the address of the array held in the component state. The result is the
  address of the array returned, with the heap after the call.
\<close>

definition filteredTasks ::
  "Runtime \<Rightarrow> FilterType \<Rightarrow> string \<Rightarrow> addr \<Rightarrow> Heap \<Rightarrow> addr \<times> Heap" where
  "filteredTasks rt flt filterDate tasks h =
     (let (result, h1) =
            (case flt of
               F_ACTIVE \<Rightarrow> array_filter (\<lambda>t. \<not> completed t) tasks h
             | F_COMPLETED \<Rightarrow> array_filter (\<lambda>t. completed t) tasks h
             | F_ALL \<Rightarrow> (tasks, h));
          (result', h2) =
            (if truthy_str filterDate then array_filter (dateMatches rt filterDate) result h1
             else (result, h1))
      in array_sort (compareTasks flt filterDate) result' h2)"

text \<open>
  A heap that holds the task list \<open>ts\<close> at address 0 and nothing else; the derived list
  and the task list after one run of the pipeline on it.
\<close>

definition store :: "Task list \<Rightarrow> Heap" where
  "store ts = \<lparr>cells = (\<lambda>_. [])(0 := ts), fresh = 1\<rparr>"

definition derived :: "Runtime \<Rightarrow> FilterType \<Rightarrow> string \<Rightarrow> Task list \<Rightarrow> Task list" where
  "derived rt flt filterDate ts =
     (let (result, h) = filteredTasks rt flt filterDate 0 (store ts) in cells h result)"

definition tasksAfter :: "Runtime \<Rightarrow> FilterType \<Rightarrow> string \<Rightarrow> Task list \<Rightarrow> Task list" where
  "tasksAfter rt flt filterDate ts =
     (let (result, h) = filteredTasks rt flt filterDate 0 (store ts) in cells h 0)"

text \<open>The tasks the \<^verbatim>\<open>switch\<close> on the status filter keeps.\<close>

definition passesStatus :: "FilterType \<Rightarrow> Task \<Rightarrow> bool" where
  "passesStatus flt t =
     (case flt of F_ACTIVE \<Rightarrow> \<not> completed t | F_COMPLETED \<Rightarrow> completed t | F_ALL \<Rightarrow> True)"

section \<open>Runs of the store\<close>

text \<open>
  The events that change the array held in the component state: the four operations,
  with \<open>editTask\<close> reached through the save handler of a row as in the source, and a
  render, which runs the pipeline on the array itself.
\<close>

datatype Event =
    Add string int string "string option"
  | Toggle string
  | Delete string
  | Save Task ItemState
  | Render FilterType string

fun step :: "Runtime \<Rightarrow> Task list \<Rightarrow> Event \<Rightarrow> Task list" where
  "step rt ts (Add uuid now txt dateStr) = addTask rt uuid now txt dateStr ts"
| "step rt ts (Toggle i) = toggleTask i ts"
| "step rt ts (Delete i) = deleteTask i ts"
| "step rt ts (Save task st) = snd (handleSave rt task st ts)"
| "step rt ts (Render flt filterDate) = tasksAfter rt flt filterDate ts"

definition run :: "Runtime \<Rightarrow> Event list \<Rightarrow> Task list" where
  "run rt evs = foldl (step rt) [] evs"

section \<open>A browser in the time zone UTC\<close>

text \<open>
  A concrete \<open>Runtime\<close> for the runs evaluated below: the proleptic Gregorian calendar
  with local time equal to UTC. \<open>civil_from_days\<close> gives year, month (1 to 12) and day of
  a day number counted from 1970-01-01, \<open>days_from_civil\<close> is its inverse.
\<close>

definition msPerDay :: int where
  "msPerDay = 86400000"

definition civil_from_days :: "int \<Rightarrow> int \<times> int \<times> int" where
  "civil_from_days n =
     (let z = n + 719468;
          era = z div 146097;
          doe = z - era * 146097;
          yoe = (doe - doe div 1460 + doe div 36524 - doe div 146096) div 365;
          doy = doe - (365 * yoe + yoe div 4 - yoe div 100);
          mp = (5 * doy + 2) div 153;
          d = doy - (153 * mp + 2) div 5 + 1;
          m = (if mp < 10 then mp + 3 else mp - 9);
          y = yoe + era * 400
      in (if m \<le> 2 then y + 1 else y, m, d))"

definition days_from_civil :: "int \<Rightarrow> int \<Rightarrow> int \<Rightarrow> int" where
  "days_from_civil y m d =
     (let y' = (if m \<le> 2 then y - 1 else y);
          era = y' div 400;
          yoe = y' - era * 400;
          doy = (153 * (if m > 2 then m - 3 else m + 9) + 2) div 5 + d - 1;
          doe = yoe * 365 + yoe div 4 - yoe div 100 + doy
      in era * 146097 + doe - 719468)"

text \<open>
  \<^verbatim>\<open>new Date(y, mi, d).getTime()\<close>: a year from 0 to 99 means 1900 + y, a month index
  outside 0 to 11 and a day outside the month carry over, and a time more than
  8640000000000000 ms from the epoch is invalid.
\<close>

definition utc_newDate :: "int \<Rightarrow> int \<Rightarrow> int \<Rightarrow> int option" where
  "utc_newDate y mi d =
     (let yr = (if 0 \<le> y \<and> y \<le> 99 then 1900 + y else y);
          t = msPerDay * days_from_civil (yr + mi div 12) (mi mod 12 + 1) d
      in if - 8640000000000000 \<le> t \<and> t \<le> 8640000000000000 then Some t else None)"

text \<open>
  The example runs pass values of a date input only, so \<open>newDateOther\<close> is not read in
  them; it is set to the invalid date.
\<close>

definition utc :: Runtime where
  "utc = \<lparr>getFullYear = (\<lambda>ts. fst (civil_from_days (ts div msPerDay))),
          getMonth = (\<lambda>ts. fst (snd (civil_from_days (ts div msPerDay))) - 1),
          getDate = (\<lambda>ts. snd (snd (civil_from_days (ts div msPerDay)))),
          newDate = utc_newDate,
          newDateOther = (\<lambda>_. None)\<rparr>"

section \<open>Subtask suggestion client (services/geminiService)\<close>

text \<open>
  Values as \<^verbatim>\<open>JSON.parse\<close> returns them. The function is declared to return
  \<^verbatim>\<open>string[]\<close>, but what it returns is whatever the response holds under
  \<^verbatim>\<open>subtasks\<close>, so its result is a \<open>json\<close>; the empty list is \<open>JArr []\<close>.
\<close>

datatype json =
    JNull
  | JBool bool
  | JNum int
  | JStr string
  | JArr "json list"
  | JObj "(string \<times> json) list"

text \<open>A thrown value, or the reason of a rejected promise.\<close>

datatype exn = NetworkError string | SyntaxError string | TypeError string

text \<open>
  The fate of a promise: fulfilled with a value, rejected with a reason, or never
  settled. It is also how an \<^verbatim>\<open>async\<close> function ends: \<open>Fulfilled v\<close> for
  \<^verbatim>\<open>return v\<close>, \<open>Rejected e\<close> for an error that leaves the function.
\<close>

datatype 'a promise = Fulfilled 'a | Rejected exn | Pending

record GenerateContentRequest =
  model :: string
  contents :: string
  responseMimeType :: string

text \<open>
  What the module gets from outside: the credential
  \<^verbatim>\<open>process.env.API_KEY || ''\<close>, the service behind
  \<^verbatim>\<open>ai.models.generateContent\<close> as the promise it answers a request with (the
  \<^verbatim>\<open>text\<close> of the response, \<open>None\<close> for \<^verbatim>\<open>undefined\<close>), and \<^verbatim>\<open>JSON.parse\<close>, which
  throws on text that is not JSON.
\<close>

record Service =
  apiKey :: string
  generateContent :: "GenerateContentRequest \<Rightarrow> string option promise"
  JSON_parse :: "string \<Rightarrow> exn + json"

datatype console = Warn string | Error string

text \<open>
  \<^verbatim>\<open>result.subtasks\<close>: reading a property of \<^verbatim>\<open>null\<close> throws, an object gives the
  member or \<^verbatim>\<open>undefined\<close> (\<open>None\<close>), every other value gives \<^verbatim>\<open>undefined\<close>.
\<close>

fun get_prop :: "json \<Rightarrow> string \<Rightarrow> exn + json option" where
  "get_prop JNull k = Inl (TypeError ''Cannot read properties of null'')"
| "get_prop (JObj kvs) k = Inr (map_of kvs k)"
| "get_prop v k = Inr None"

fun truthy_json :: "json option \<Rightarrow> bool" where
  "truthy_json None = False"
| "truthy_json (Some JNull) = False"
| "truthy_json (Some (JBool b)) = b"
| "truthy_json (Some (JNum n)) = (n \<noteq> 0)"
| "truthy_json (Some (JStr s)) = (s \<noteq> [])"
| "truthy_json (Some (JArr xs)) = True"
| "truthy_json (Some (JObj kvs)) = True"

text \<open>\<^verbatim>\<open>v || []\<close>.\<close>

fun or_empty :: "json option \<Rightarrow> json" where
  "or_empty None = JArr []"
| "or_empty (Some v) = (if truthy_json (Some v) then v else JArr [])"

definition request_for :: "string \<Rightarrow> GenerateContentRequest" where
  "request_for taskText =
     \<lparr>model = ''gemini-2.5-flash'',
      contents = ''Break down the following task into smaller, actionable steps: '' @
        [CHR 0x22] @ taskText @ [CHR 0x22] @ ''. keep it brief and direct. Language: Thai.'',
      responseMimeType = ''application/json''\<rparr>"

text \<open>The body of the \<^verbatim>\<open>try\<close> block: how it ends, before the \<^verbatim>\<open>catch\<close>.\<close>

definition try_block :: "Service \<Rightarrow> string \<Rightarrow> json promise" where
  "try_block sv taskText =
     (case generateContent sv (request_for taskText) of
        Pending \<Rightarrow> Pending
      | Rejected e \<Rightarrow> Rejected e
      | Fulfilled jsonText \<Rightarrow>
          (case jsonText of
             None \<Rightarrow> Fulfilled (JArr [])
           | Some s \<Rightarrow>
               if \<not> truthy_str s then Fulfilled (JArr [])
               else
                 (case JSON_parse sv s of
                    Inl e \<Rightarrow> Rejected e
                  | Inr result \<Rightarrow>
                      (case get_prop result ''subtasks'' of
                         Inl e \<Rightarrow> Rejected e
                       | Inr v \<Rightarrow> Fulfilled (or_empty v)))))"

text \<open>
  One call of \<^verbatim>\<open>suggestSubtasks\<close>: how its promise ends, the requests it sent and
  what it wrote to the console.
\<close>

record Call =
  outcome :: "json promise"
  requests :: "GenerateContentRequest list"
  logged :: "console list"

definition suggestSubtasks :: "Service \<Rightarrow> string \<Rightarrow> Call" where
  "suggestSubtasks sv taskText =
     (if \<not> truthy_str (apiKey sv) then
        \<lparr>outcome = Fulfilled (JArr []), requests = [],
         logged = [Warn ''API Key is missing. Skipping AI suggestion.'']\<rparr>
      else
        (case try_block sv taskText of
           Rejected e \<Rightarrow>
             \<lparr>outcome = Fulfilled (JArr []), requests = [request_for taskText],
              logged = [Error ''Error generating subtasks:'']\<rparr>
         | r \<Rightarrow> \<lparr>outcome = r, requests = [request_for taskText], logged = []\<rparr>))"

section \<open>Example runs\<close>

text \<open>
  Runs of the store in the UTC browser, used to evaluate the code on concrete input:
  the two tasks of the end-to-end example of the specification, added in that order;
  the same with the first task due on 1970-01-01; and four undated tasks of which two
  are then completed.
\<close>

definition trip_events :: "Event list" where
  "trip_events =
     [Add ''a'' 1 ''Plan trip'' (Some ''2024-07-01''), Add ''b'' 2 ''Book flight'' None]"

definition epoch_events :: "Event list" where
  "epoch_events =
     [Add ''a'' 1 ''Plan trip'' (Some ''1970-01-01''), Add ''b'' 2 ''Book flight'' None]"

definition mixed_events :: "Event list" where
  "mixed_events =
     [Add ''t1'' 1 ''Write report'' None, Add ''t2'' 2 ''Buy milk'' None,
      Add ''t3'' 3 ''Call bank'' None, Add ''t4'' 4 ''Fix bike'' None,
      Toggle ''t4'', Toggle ''t2'']"

text \<open>
  Services for concrete calls of the suggestion client: one without a credential, one
  whose request is rejected, one that answers with text that is not JSON, and one that
  answers with an object without \<^verbatim>\<open>subtasks\<close>.
\<close>

definition no_key_service :: Service where
  "no_key_service =
     \<lparr>apiKey = [], generateContent = (\<lambda>_. Pending),
      JSON_parse = (\<lambda>_. Inl (SyntaxError ''Unexpected end of JSON input''))\<rparr>"

definition offline_service :: Service where
  "offline_service =
     \<lparr>apiKey = ''key'', generateContent = (\<lambda>_. Rejected (NetworkError ''fetch failed'')),
      JSON_parse = (\<lambda>_. Inl (SyntaxError ''Unexpected end of JSON input''))\<rparr>"

definition garbled_service :: Service where
  "garbled_service =
     \<lparr>apiKey = ''key'', generateContent = (\<lambda>_. Fulfilled (Some ''{sub'')),
      JSON_parse = (\<lambda>_. Inl (SyntaxError ''Unexpected token s''))\<rparr>"

definition empty_object_service :: Service where
  "empty_object_service =
     \<lparr>apiKey = ''key'', generateContent = (\<lambda>_. Fulfilled (Some ''{}'')),
      JSON_parse = (\<lambda>_. Inr (JObj []))\<rparr>"

section \<open>The pipeline as a function of the task list\<close>

lemma derived_eq:
  "derived rt flt fd ts =
     sort_by (compareTasks flt fd)
       (filter (\<lambda>t. passesStatus flt t \<and> (fd = [] \<or> dateMatches rt fd t)) ts)"
  by (cases flt)
     (simp_all add: derived_def filteredTasks_def array_filter_def array_sort_def store_def
        passesStatus_def truthy_str_def)

lemma tasksAfter_eq:
  "tasksAfter rt flt fd ts =
     (if flt = F_ALL \<and> fd = [] then sort_by (compareTasks flt fd) ts else ts)"
  by (cases flt)
     (simp_all add: tasksAfter_def filteredTasks_def array_filter_def array_sort_def store_def
        truthy_str_def)

subsection \<open>The sort returns a sorted rearrangement\<close>

lemma mset_insert_by: "mset (insert_by c x xs) = add_mset x (mset xs)"
  by (induction xs) simp_all

lemma mset_sort_by: "mset (sort_by c xs) = mset xs"
  by (induction xs) (simp_all add: mset_insert_by)

lemma set_insert_by: "set (insert_by c x xs) = insert x (set xs)"
  by (induction xs) auto

lemma set_sort_by: "set (sort_by c xs) = set xs"
  by (induction xs) (simp_all add: set_insert_by)

lemma sorted_insert_by:
  assumes tot: "\<And>a b. c a b \<le> 0 \<or> c b a \<le> 0"
    and tr: "\<And>a b d. c a b \<le> 0 \<Longrightarrow> c b d \<le> 0 \<Longrightarrow> c a d \<le> 0"
    and srt: "sorted_wrt (\<lambda>a b. c a b \<le> 0) xs"
  shows "sorted_wrt (\<lambda>a b. c a b \<le> 0) (insert_by c x xs)"
  using srt
proof (induction xs)
  case Nil
  then show ?case by simp
next
  case (Cons y ys)
  show ?case
  proof (cases "c x y \<le> 0")
    case True
    have "\<forall>z\<in>set ys. c x z \<le> 0"
    proof
      fix z assume "z \<in> set ys"
      with Cons.prems have "c y z \<le> 0" by simp
      with True show "c x z \<le> 0" by (rule tr)
    qed
    with True Cons.prems show ?thesis by simp
  next
    case False
    with tot have "c y x \<le> 0" by blast
    with False Cons show ?thesis by (simp add: set_insert_by)
  qed
qed

lemma sorted_sort_by:
  assumes tot: "\<And>a b. c a b \<le> 0 \<or> c b a \<le> 0"
    and tr: "\<And>a b d. c a b \<le> 0 \<Longrightarrow> c b d \<le> 0 \<Longrightarrow> c a d \<le> 0"
  shows "sorted_wrt (\<lambda>a b. c a b \<le> 0) (sort_by c xs)"
proof (induction xs)
  case Nil
  show ?case by simp
next
  case (Cons x xs)
  from sorted_insert_by [OF tot tr Cons.IH] show ?case by simp
qed

subsection \<open>The comparator is consistent\<close>

lemma compareTasks_total: "compareTasks flt fd a b \<le> 0 \<or> compareTasks flt fd b a \<le> 0"
  unfolding compareTasks_def
  by (cases "flt = F_ALL"; cases "truthy_str fd"; cases "completed a"; cases "completed b";
      cases "truthy_num (dueDate a)"; cases "truthy_num (dueDate b)"; simp; linarith)

lemma compareTasks_trans:
  assumes "compareTasks flt fd a b \<le> 0" and "compareTasks flt fd b d \<le> 0"
  shows "compareTasks flt fd a d \<le> 0"
  using assms unfolding compareTasks_def
  by (cases "flt = F_ALL"; cases "truthy_str fd"; cases "completed a"; cases "completed b";
      cases "completed d"; cases "truthy_num (dueDate a)"; cases "truthy_num (dueDate b)";
      cases "truthy_num (dueDate d)"; simp)

lemma compareTasks_antisym: "compareTasks flt fd a b < 0 \<longleftrightarrow> 0 < compareTasks flt fd b a"
  unfolding compareTasks_def
  by (cases "flt = F_ALL"; cases "truthy_str fd"; cases "completed a"; cases "completed b";
      cases "truthy_num (dueDate a)"; cases "truthy_num (dueDate b)"; simp; linarith)

lemma sorted_derived:
  "sorted_wrt (\<lambda>a b. compareTasks flt fd a b \<le> 0) (derived rt flt fd ts)"
  unfolding derived_eq
  by (rule sorted_sort_by [OF compareTasks_total compareTasks_trans])

lemma derived_pairwise:
  assumes "i < j" and "j < length (derived rt flt fd ts)"
  shows "compareTasks flt fd (derived rt flt fd ts ! i) (derived rt flt fd ts ! j) \<le> 0"
  using sorted_derived [of flt fd rt ts] assms by (simp add: sorted_wrt_iff_nth_less)

section \<open>Properties of the derivation pipeline\<close>

text \<open>
  Claim C4. With the status filter ALL, every incomplete task of the derived list stands
  before every completed one, whatever the due dates, the creation times and the date
  filter are: a position holding an incomplete task is smaller than a position holding
  a completed task.
\<close>

theorem completed_after_incomplete:
  assumes "p < length (derived rt F_ALL fd ts)" and "q < length (derived rt F_ALL fd ts)"
    and "\<not> completed (derived rt F_ALL fd ts ! p)" and "completed (derived rt F_ALL fd ts ! q)"
  shows "p < q"
proof (rule ccontr)
  assume "\<not> p < q"
  with assms have "q < p" by (cases "p = q") auto
  from derived_pairwise [OF this assms(1)]
  have "compareTasks F_ALL fd (derived rt F_ALL fd ts ! q) (derived rt F_ALL fd ts ! p) \<le> 0" .
  with assms(3,4) show False by (simp add: compareTasks_def)
qed

text \<open>
  Claim C9. The lists derived with the filters ACTIVE and COMPLETED hold together, as
  multisets, exactly the tasks of the list derived with the filter ALL, for every task
  list and every date filter.
\<close>

theorem active_completed_partition:
  "mset (derived rt F_ACTIVE fd ts) + mset (derived rt F_COMPLETED fd ts) =
   mset (derived rt F_ALL fd ts)"
proof -
  let ?d = "\<lambda>t. fd = [] \<or> dateMatches rt fd t"
  have "mset (filter (\<lambda>t. \<not> completed t \<and> ?d t) ts) + mset (filter (\<lambda>t. completed t \<and> ?d t) ts) =
        mset (filter ?d ts)"
    by (induction ts) auto
  then show ?thesis
    by (simp add: derived_eq mset_sort_by passesStatus_def)
qed

text \<open>
  \<open>derived\<close> and \<open>tasksAfter\<close> run the pipeline on a heap that holds the task list only.
  On any heap in which the array of the component state is allocated, the pipeline
  returns the same list, leaves the same list in the state, and touches no other
  allocated array.
\<close>

lemma filteredTasks_on_heap:
  assumes "a < fresh h"
  shows "cells (snd (filteredTasks rt flt fd a h)) (fst (filteredTasks rt flt fd a h)) =
           derived rt flt fd (cells h a) \<and>
         cells (snd (filteredTasks rt flt fd a h)) a = tasksAfter rt flt fd (cells h a) \<and>
         (b < fresh h \<and> b \<noteq> a \<longrightarrow> cells (snd (filteredTasks rt flt fd a h)) b = cells h b)"
  using assms
  by (cases flt)
     (simp_all add: derived_eq tasksAfter_eq filteredTasks_def array_filter_def array_sort_def
        passesStatus_def truthy_str_def)

section \<open>Due dates, as the pipeline reads them\<close>

text \<open>
  The pipeline tests \<^verbatim>\<open>t.dueDate\<close> for truthiness, so it reads a task as dated when
  its due date is present and not 0. In these terms: without a date filter, and within
  one completion group when the filter is ALL, dated tasks stand before undated ones,
  dated tasks are in ascending order of due date, and undated tasks in descending order
  of creation time.
\<close>

lemma derived_order_truthy:
  assumes "i < j" and "j < length (derived rt flt [] ts)"
    and "flt = F_ALL \<longrightarrow>
      completed (derived rt flt [] ts ! i) = completed (derived rt flt [] ts ! j)"
  shows "(truthy_num (dueDate (derived rt flt [] ts ! j)) \<longrightarrow>
            truthy_num (dueDate (derived rt flt [] ts ! i))) \<and>
         (truthy_num (dueDate (derived rt flt [] ts ! i)) \<and>
          truthy_num (dueDate (derived rt flt [] ts ! j)) \<longrightarrow>
            num_of (dueDate (derived rt flt [] ts ! i)) \<le> num_of (dueDate (derived rt flt [] ts ! j))) \<and>
         (\<not> truthy_num (dueDate (derived rt flt [] ts ! i)) \<and>
          \<not> truthy_num (dueDate (derived rt flt [] ts ! j)) \<longrightarrow>
            createdAt (derived rt flt [] ts ! j) \<le> createdAt (derived rt flt [] ts ! i))"
proof -
  let ?a = "derived rt flt [] ts ! i" and ?b = "derived rt flt [] ts ! j"
  from derived_pairwise [OF assms(1,2)] have "compareTasks flt [] ?a ?b \<le> 0" .
  with assms(3) show ?thesis
    unfolding compareTasks_def truthy_str_def
    by (cases "flt = F_ALL"; cases "truthy_num (dueDate ?a)"; cases "truthy_num (dueDate ?b)"; simp)
qed

text \<open>
  With a date filter, the derived list holds exactly the tasks that pass the status
  filter and whose due date is present, not 0, and rendered as the filter's date; a
  task without a due date is never in it.
\<close>

lemma derived_date_filter:
  assumes "fd \<noteq> []"
  shows "mset (derived rt flt fd ts) =
    mset (filter (\<lambda>t. passesStatus flt t \<and> truthy_num (dueDate t) \<and>
                       ymd rt (num_of (dueDate t)) = fd) ts)"
proof -
  have "filter (\<lambda>t. passesStatus flt t \<and> (fd = [] \<or> dateMatches rt fd t)) ts =
    filter (\<lambda>t. passesStatus flt t \<and> truthy_num (dueDate t) \<and>
                  ymd rt (num_of (dueDate t)) = fd) ts"
    using assms by (intro filter_cong refl) (auto simp: dateMatches_def)
  then show ?thesis by (simp add: derived_eq mset_sort_by)
qed

lemma derived_date_filter_undated:
  assumes "fd \<noteq> []" and "t \<in> set (derived rt flt fd ts)"
  shows "dueDate t \<noteq> None"
proof -
  from assms(2) have "t \<in># mset (derived rt flt fd ts)" by simp
  with derived_date_filter [OF assms(1)] have "truthy_num (dueDate t)" by simp
  then show ?thesis by (cases "dueDate t") (simp_all add: truthy_num_def)
qed

text \<open>
  The array of the component state after a render: with a status filter other than ALL
  or with a date filter it is as before, and it always holds the same tasks.
\<close>

lemma tasksAfter_unchanged:
  assumes "flt \<noteq> F_ALL \<or> fd \<noteq> []"
  shows "tasksAfter rt flt fd ts = ts"
  using assms by (auto simp: tasksAfter_eq)

lemma mset_tasksAfter: "mset (tasksAfter rt flt fd ts) = mset ts"
  by (simp add: tasksAfter_eq mset_sort_by)

text \<open>
  Claim C2. With the filter ALL and no date filter the pipeline sorts the array of the
  component state itself: the array it returns is that array (address 0), and after
  the run on the two tasks of the example, held as Book flight, Plan trip, the state
  holds them as Plan trip, Book flight.
\<close>

theorem render_reorders_tasks:
  "fst (filteredTasks utc F_ALL [] 0 (store (run utc trip_events))) = 0 \<and>
   map task_text (run utc trip_events) = [''Book flight'', ''Plan trip''] \<and>
   map task_text (tasksAfter utc F_ALL [] (run utc trip_events)) =
     [''Plan trip'', ''Book flight''] \<and>
   tasksAfter utc F_ALL [] (run utc trip_events) \<noteq> run utc trip_events"
  by code_simp

text \<open>
  Claim C3. A task due on 1970-01-01 in the UTC browser has the due date 0. Without a
  date filter the derived list has it after the undated task created later, where a
  task with a due date should stand before one without.
\<close>

theorem epoch_task_sorted_as_undated:
  "map dueDate (run utc epoch_events) = [None, Some 0] \<and>
   map task_text (derived utc F_ALL [] (run utc epoch_events)) =
     [''Book flight'', ''Plan trip''] \<and>
   map dueDate (derived utc F_ALL [] (run utc epoch_events)) = [None, Some 0] \<and>
   map completed (derived utc F_ALL [] (run utc epoch_events)) = [False, False]"
  by code_simp

text \<open>
  Claim C5. A task due on 1970-01-01 in the UTC browser has the due date 0. It passes
  the status filter ALL, has a due date, and its due date is the day 1970-01-01; the
  list derived with the date filter 1970-01-01 is empty all the same, where the task
  should be kept.
\<close>

theorem epoch_task_dropped_by_date_filter:
  "dueDate (run utc epoch_events ! 1) = Some 0 \<and>
   passesStatus F_ALL (run utc epoch_events ! 1) \<and>
   ymd utc 0 = ''1970-01-01'' \<and>
   derived utc F_ALL ''1970-01-01'' (run utc epoch_events) = []"
  by code_simp

section \<open>Properties of the store\<close>

subsection \<open>Trimming\<close>

lemma trim_leading: "dropWhile isWhiteSpace (trim s) = trim s"
proof -
  let ?xs = "dropWhile isWhiteSpace s"
  let ?zs = "dropWhile isWhiteSpace (rev ?xs)"
  have "?xs = rev (takeWhile isWhiteSpace (rev ?xs) @ ?zs)"
    by (simp only: takeWhile_dropWhile_id rev_rev_ident)
  then have xs: "?xs = rev ?zs @ rev (takeWhile isWhiteSpace (rev ?xs))"
    by (simp only: rev_append)
  show ?thesis
  proof (cases "?zs = []")
    case True
    show ?thesis by (simp only: trim_def True rev.simps dropWhile.simps)
  next
    case False
    then have ne: "rev ?zs \<noteq> []" by simp
    with xs have "hd (rev ?zs) = hd ?xs" by (metis hd_append2)
    moreover from xs ne have "?xs \<noteq> []" by (metis append_is_Nil_conv)
    then have "\<not> isWhiteSpace (hd ?xs)" by (rule hd_dropWhile)
    ultimately have "\<not> isWhiteSpace (hd (rev ?zs))" by simp
    then have "dropWhile isWhiteSpace (rev ?zs) = rev ?zs"
      by (simp add: dropWhile_eq_self_iff)
    then show ?thesis by (simp add: trim_def)
  qed
qed

lemma trim_idem: "trim (trim s) = trim s"
proof -
  have "trim (trim s) = rev (dropWhile isWhiteSpace (rev (trim s)))"
    unfolding trim_def [of "trim s"] by (simp only: trim_leading)
  also have "\<dots> = trim s" by (simp add: trim_def)
  finally show ?thesis .
qed

lemma trim_Nil: "trim [] = []"
  by (simp add: trim_def)

subsection \<open>Every stored text is non-empty\<close>

lemma addTask_texts:
  assumes "\<forall>t\<in>set ts. trim (task_text t) \<noteq> []"
  shows "\<forall>t\<in>set (addTask rt uuid now txt dateStr ts). trim (task_text t) \<noteq> []"
  using assms by (simp add: addTask_def truthy_str_def Let_def trim_idem)

lemma toggleTask_texts:
  assumes "\<forall>t\<in>set ts. trim (task_text t) \<noteq> []"
  shows "\<forall>t\<in>set (toggleTask i ts). trim (task_text t) \<noteq> []"
  using assms by (auto simp: toggleTask_def)

lemma deleteTask_texts:
  assumes "\<forall>t\<in>set ts. trim (task_text t) \<noteq> []"
  shows "\<forall>t\<in>set (deleteTask i ts). trim (task_text t) \<noteq> []"
  using assms by (simp add: deleteTask_def)

lemma handleSave_texts:
  assumes "\<forall>t\<in>set ts. trim (task_text t) \<noteq> []"
  shows "\<forall>t\<in>set (snd (handleSave rt task st ts)). trim (task_text t) \<noteq> []"
  using assms by (auto simp: handleSave_def editTask_def truthy_str_def Let_def trim_idem)

lemma tasksAfter_texts:
  assumes "\<forall>t\<in>set ts. trim (task_text t) \<noteq> []"
  shows "\<forall>t\<in>set (tasksAfter rt flt fd ts). trim (task_text t) \<noteq> []"
  using assms by (simp add: tasksAfter_eq set_sort_by)

lemma step_texts:
  assumes "\<forall>t\<in>set ts. trim (task_text t) \<noteq> []"
  shows "\<forall>t\<in>set (step rt ts ev). trim (task_text t) \<noteq> []"
proof (cases ev)
  case (Add u n x d)
  with addTask_texts [OF assms] show ?thesis by simp
next
  case (Toggle i)
  with toggleTask_texts [OF assms] show ?thesis by simp
next
  case (Delete i)
  with deleteTask_texts [OF assms] show ?thesis by simp
next
  case (Save task st)
  with handleSave_texts [OF assms] show ?thesis by simp
next
  case (Render flt fd)
  with tasksAfter_texts [OF assms] show ?thesis by simp
qed

lemma foldl_step_texts:
  "\<forall>t\<in>set ts. trim (task_text t) \<noteq> [] \<Longrightarrow>
   \<forall>t\<in>set (foldl (step rt) ts evs). trim (task_text t) \<noteq> []"
proof (induction evs arbitrary: ts)
  case Nil
  then show ?case by simp
next
  case (Cons ev evs)
  from Cons.IH [OF step_texts [OF Cons.prems]] show ?case by simp
qed

text \<open>
  Claim C8. In every state the store reaches from the empty list by \<open>addTask\<close>,
  \<open>toggleTask\<close>, \<open>deleteTask\<close>, edits made through the save handler of a row, and
  renders, the text of every task is neither empty nor white space only.
\<close>

theorem stored_text_never_blank:
  assumes "t \<in> set (run rt evs)"
  shows "trim (task_text t) \<noteq> [] \<and> task_text t \<noteq> []"
proof -
  have "\<forall>t\<in>set (foldl (step rt) [] evs). trim (task_text t) \<noteq> []"
    by (rule foldl_step_texts) simp
  with assms have "trim (task_text t) \<noteq> []" by (simp add: run_def)
  then show ?thesis using trim_Nil by auto
qed

subsection \<open>The time of a date string\<close>







text \<open>
  Claim C10. \<open>editTask\<close> keeps the length of the list; at every position, a task with
  the given identifier gets exactly the supplied due date (none, if none is supplied)
  and the new text, and keeps its identifier, creation time and completion flag; every
  other task stays as it is. A save with a non-blank text is this edit, and a save with
  an empty date field supplies no due date.
\<close>

theorem editTask_sets_dueDate:
  assumes "k < length ts"
  shows "length (editTask i newText newDueDate ts) = length ts \<and>
    (task_id (ts ! k) = i \<longrightarrow>
       dueDate (editTask i newText newDueDate ts ! k) = newDueDate \<and>
       task_text (editTask i newText newDueDate ts ! k) = newText \<and>
       task_id (editTask i newText newDueDate ts ! k) = task_id (ts ! k) \<and>
       createdAt (editTask i newText newDueDate ts ! k) = createdAt (ts ! k) \<and>
       completed (editTask i newText newDueDate ts ! k) = completed (ts ! k)) \<and>
    (task_id (ts ! k) \<noteq> i \<longrightarrow> editTask i newText newDueDate ts ! k = ts ! k) \<and>
    (trim (editText st) \<noteq> [] \<longrightarrow>
       snd (handleSave rt task st ts) =
         editTask (task_id task) (trim (editText st))
           (if editDate st = [] then None else dateInputTime rt (editDate st)) ts)"
  using assms by (simp add: editTask_def handleSave_def truthy_str_def Let_def)

text \<open>
  Claim C1. An edit is made by the save handler of the row, the one caller of the
  store's \<open>editTask\<close>. When the new text is empty (or white space only), whatever the
  date field holds, the handler does not call \<open>editTask\<close>: the task list is as before,
  so the text and the due date of every task, the target among them, are unchanged,
  and the text field of the row goes back to the text of the task. No save stores a
  blank text: a task that a save puts into the list has a text that is not blank.
\<close>

theorem blank_save_reverts:
  "(trim (editText st) = [] \<longrightarrow>
      snd (handleSave rt task st ts) = ts \<and>
      editText (fst (handleSave rt task st ts)) = task_text task \<and>
      \<not> isEditing (fst (handleSave rt task st ts))) \<and>
   (trim (editText st) = [] \<and> k < length ts \<longrightarrow>
      task_text (snd (handleSave rt task st ts) ! k) = task_text (ts ! k) \<and>
      dueDate (snd (handleSave rt task st ts) ! k) = dueDate (ts ! k)) \<and>
   (t \<in> set (snd (handleSave rt task st ts)) \<and> t \<notin> set ts \<longrightarrow> trim (task_text t) \<noteq> [])"
proof -
  have a: "trim (editText st) = [] \<longrightarrow>
      snd (handleSave rt task st ts) = ts \<and>
      editText (fst (handleSave rt task st ts)) = task_text task \<and>
      \<not> isEditing (fst (handleSave rt task st ts))"
    by (simp add: handleSave_def truthy_str_def)
  then have b: "trim (editText st) = [] \<and> k < length ts \<longrightarrow>
      task_text (snd (handleSave rt task st ts) ! k) = task_text (ts ! k) \<and>
      dueDate (snd (handleSave rt task st ts) ! k) = dueDate (ts ! k)"
    by simp
  have c: "t \<in> set (snd (handleSave rt task st ts)) \<and> t \<notin> set ts \<longrightarrow> trim (task_text t) \<noteq> []"
    by (auto simp: handleSave_def editTask_def truthy_str_def Let_def trim_idem
        split: if_splits)
  from a b c show ?thesis by (intro conjI)
qed

section \<open>Properties of the suggestion client\<close>

lemma suggestSubtasks_outcome:
  "outcome (suggestSubtasks sv taskText) =
     (if apiKey sv = [] then Fulfilled (JArr [])
      else (case try_block sv taskText of Rejected e \<Rightarrow> Fulfilled (JArr []) | r \<Rightarrow> r))"
  by (simp add: suggestSubtasks_def truthy_str_def split: promise.splits)

text \<open>
  Claim C7. The promise of \<open>suggestSubtasks\<close> is never rejected. Without a credential it
  is fulfilled with the empty list and no request is sent. With a credential, it is
  fulfilled with the empty list when the request is rejected, when the response has no
  text or an empty one, when the text does not parse, and when the parsed value is
  \<^verbatim>\<open>null\<close> or has no \<^verbatim>\<open>subtasks\<close> or an empty one.
\<close>

theorem suggestSubtasks_never_rejects:
  "outcome (suggestSubtasks sv taskText) \<noteq> Rejected e \<and>
   (apiKey sv = [] \<longrightarrow>
      outcome (suggestSubtasks sv taskText) = Fulfilled (JArr []) \<and>
      requests (suggestSubtasks sv taskText) = []) \<and>
   (apiKey sv \<noteq> [] \<and> generateContent sv (request_for taskText) = Rejected e' \<longrightarrow>
      outcome (suggestSubtasks sv taskText) = Fulfilled (JArr [])) \<and>
   (apiKey sv \<noteq> [] \<and>
    (generateContent sv (request_for taskText) = Fulfilled None \<or>
     generateContent sv (request_for taskText) = Fulfilled (Some [])) \<longrightarrow>
      outcome (suggestSubtasks sv taskText) = Fulfilled (JArr [])) \<and>
   (apiKey sv \<noteq> [] \<and> generateContent sv (request_for taskText) = Fulfilled (Some s) \<and>
    JSON_parse sv s = Inl e' \<longrightarrow>
      outcome (suggestSubtasks sv taskText) = Fulfilled (JArr [])) \<and>
   (apiKey sv \<noteq> [] \<and> generateContent sv (request_for taskText) = Fulfilled (Some s) \<and>
    JSON_parse sv s = Inr v \<and>
    (v = JNull \<or> get_prop v ''subtasks'' = Inr None \<or>
     get_prop v ''subtasks'' = Inr (Some (JArr []))) \<longrightarrow>
      outcome (suggestSubtasks sv taskText) = Fulfilled (JArr []))"
proof -
  have 1: "outcome (suggestSubtasks sv taskText) \<noteq> Rejected e"
    by (simp add: suggestSubtasks_outcome split: promise.splits)
  have 2: "apiKey sv = [] \<longrightarrow>
      outcome (suggestSubtasks sv taskText) = Fulfilled (JArr []) \<and>
      requests (suggestSubtasks sv taskText) = []"
    by (simp add: suggestSubtasks_def truthy_str_def)
  have 3: "apiKey sv \<noteq> [] \<and> generateContent sv (request_for taskText) = Rejected e' \<longrightarrow>
      outcome (suggestSubtasks sv taskText) = Fulfilled (JArr [])"
    by (simp add: suggestSubtasks_outcome try_block_def)
  have 4: "apiKey sv \<noteq> [] \<and>
    (generateContent sv (request_for taskText) = Fulfilled None \<or>
     generateContent sv (request_for taskText) = Fulfilled (Some [])) \<longrightarrow>
      outcome (suggestSubtasks sv taskText) = Fulfilled (JArr [])"
    by (auto simp: suggestSubtasks_outcome try_block_def truthy_str_def)
  have 5: "apiKey sv \<noteq> [] \<and> generateContent sv (request_for taskText) = Fulfilled (Some s) \<and>
    JSON_parse sv s = Inl e' \<longrightarrow>
      outcome (suggestSubtasks sv taskText) = Fulfilled (JArr [])"
    by (simp add: suggestSubtasks_outcome try_block_def truthy_str_def)
  have 6: "apiKey sv \<noteq> [] \<and> generateContent sv (request_for taskText) = Fulfilled (Some s) \<and>
    JSON_parse sv s = Inr v \<and>
    (v = JNull \<or> get_prop v ''subtasks'' = Inr None \<or>
     get_prop v ''subtasks'' = Inr (Some (JArr []))) \<longrightarrow>
      outcome (suggestSubtasks sv taskText) = Fulfilled (JArr [])"
    by (auto simp: suggestSubtasks_outcome try_block_def truthy_str_def)
  from 1 2 3 4 5 6 show ?thesis by (intro conjI)
qed

section \<open>The theorems at concrete input\<close>

theorem completed_after_incomplete_witness:
  "1 < length (derived utc F_ALL [] (run utc mixed_events)) \<and>
   2 < length (derived utc F_ALL [] (run utc mixed_events)) \<and>
   \<not> completed (derived utc F_ALL [] (run utc mixed_events) ! 1) \<and>
   completed (derived utc F_ALL [] (run utc mixed_events) ! 2) \<and>
   (1::nat) < 2"
proof -
  have h: "1 < length (derived utc F_ALL [] (run utc mixed_events)) \<and>
    2 < length (derived utc F_ALL [] (run utc mixed_events)) \<and>
    \<not> completed (derived utc F_ALL [] (run utc mixed_events) ! 1) \<and>
    completed (derived utc F_ALL [] (run utc mixed_events) ! 2)"
    by code_simp
  then have "(1::nat) < 2"
    using completed_after_incomplete [of 1 utc "[]" "run utc mixed_events" 2] by blast
  with h show ?thesis by blast
qed

theorem active_completed_partition_witness:
  "mset (derived utc F_ACTIVE [] (run utc mixed_events)) +
   mset (derived utc F_COMPLETED [] (run utc mixed_events)) =
   mset (derived utc F_ALL [] (run utc mixed_events)) \<and>
   map task_text (derived utc F_ACTIVE [] (run utc mixed_events)) =
     [''Call bank'', ''Write report''] \<and>
   map task_text (derived utc F_COMPLETED [] (run utc mixed_events)) =
     [''Fix bike'', ''Buy milk''] \<and>
   map task_text (derived utc F_ALL [] (run utc mixed_events)) =
     [''Call bank'', ''Write report'', ''Fix bike'', ''Buy milk'']"
proof -
  have "map task_text (derived utc F_ACTIVE [] (run utc mixed_events)) =
     [''Call bank'', ''Write report''] \<and>
   map task_text (derived utc F_COMPLETED [] (run utc mixed_events)) =
     [''Fix bike'', ''Buy milk''] \<and>
   map task_text (derived utc F_ALL [] (run utc mixed_events)) =
     [''Call bank'', ''Write report'', ''Fix bike'', ''Buy milk'']"
    by code_simp
  with active_completed_partition [of utc "[]" "run utc mixed_events"] show ?thesis
    by blast
qed

theorem stored_text_never_blank_witness:
  "run utc trip_events ! 1 \<in> set (run utc trip_events) \<and>
   trim (task_text (run utc trip_events ! 1)) \<noteq> [] \<and>
   task_text (run utc trip_events ! 1) \<noteq> []"
proof -
  have "1 < length (run utc trip_events)" by code_simp
  then have h: "run utc trip_events ! 1 \<in> set (run utc trip_events)" by (rule nth_mem)
  from stored_text_never_blank [OF h] h show ?thesis by blast
qed



theorem editTask_sets_dueDate_witness:
  "1 < length (run utc trip_events) \<and>
   task_id (run utc trip_events ! 1) = ''a'' \<and>
   dueDate (run utc trip_events ! 1) = Some 1719792000000 \<and>
   dueDate (editTask ''a'' ''Plan the trip'' None (run utc trip_events) ! 1) = None \<and>
   task_text (editTask ''a'' ''Plan the trip'' None (run utc trip_events) ! 1) = ''Plan the trip'' \<and>
   createdAt (editTask ''a'' ''Plan the trip'' None (run utc trip_events) ! 1) =
     createdAt (run utc trip_events ! 1) \<and>
   0 < length (run utc trip_events) \<and>
   task_id (run utc trip_events ! 0) \<noteq> ''a'' \<and>
   editTask ''a'' ''Plan the trip'' None (run utc trip_events) ! 0 = run utc trip_events ! 0 \<and>
   trim (editText \<lparr>isEditing = True, editText = ''Plan the trip'', editDate = []\<rparr>) \<noteq> [] \<and>
   snd (handleSave utc (run utc trip_events ! 1)
          \<lparr>isEditing = True, editText = ''Plan the trip'', editDate = []\<rparr> (run utc trip_events)) =
     editTask ''a'' ''Plan the trip'' None (run utc trip_events)"
proof -
  let ?st = "\<lparr>isEditing = True, editText = ''Plan the trip'', editDate = []\<rparr>"
  have h: "1 < length (run utc trip_events) \<and> task_id (run utc trip_events ! 1) = ''a'' \<and>
    dueDate (run utc trip_events ! 1) = Some 1719792000000 \<and>
    0 < length (run utc trip_events) \<and> task_id (run utc trip_events ! 0) \<noteq> ''a''"
    by code_simp
  have t: "trim (editText ?st) \<noteq> [] \<and> trim (editText ?st) = ''Plan the trip'' \<and> editDate ?st = []"
    by code_simp
  from h have k1: "1 < length (run utc trip_events)" and k0: "0 < length (run utc trip_events)"
    by blast+
  note A = editTask_sets_dueDate [OF k1, of "''a''" "''Plan the trip''" None ?st utc
      "run utc trip_events ! 1"]
  note B = editTask_sets_dueDate [OF k0, of "''a''" "''Plan the trip''" None ?st utc
      "run utc trip_events ! 1"]
  from A h have 1: "dueDate (editTask ''a'' ''Plan the trip'' None (run utc trip_events) ! 1) = None \<and>
   task_text (editTask ''a'' ''Plan the trip'' None (run utc trip_events) ! 1) = ''Plan the trip'' \<and>
   createdAt (editTask ''a'' ''Plan the trip'' None (run utc trip_events) ! 1) =
     createdAt (run utc trip_events ! 1)"
    by blast
  from B h have 2:
    "editTask ''a'' ''Plan the trip'' None (run utc trip_events) ! 0 = run utc trip_events ! 0"
    by blast
  from A t have "snd (handleSave utc (run utc trip_events ! 1) ?st (run utc trip_events)) =
     editTask (task_id (run utc trip_events ! 1)) (trim (editText ?st))
       (if editDate ?st = [] then None else dateInputTime utc (editDate ?st))
       (run utc trip_events)"
    by blast
  with h t have 3: "snd (handleSave utc (run utc trip_events ! 1) ?st (run utc trip_events)) =
     editTask ''a'' ''Plan the trip'' None (run utc trip_events)"
    by simp
  from h t 1 2 3 show ?thesis by blast
qed

theorem blank_save_reverts_witness:
  "trim (editText \<lparr>isEditing = True, editText = [], editDate = ''2024-07-09''\<rparr>) = [] \<and>
   1 < length (run utc trip_events) \<and>
   task_id (run utc trip_events ! 1) = ''a'' \<and>
   snd (handleSave utc (run utc trip_events ! 1)
          \<lparr>isEditing = True, editText = [], editDate = ''2024-07-09''\<rparr>
          (run utc trip_events)) = run utc trip_events \<and>
   task_text (snd (handleSave utc (run utc trip_events ! 1)
          \<lparr>isEditing = True, editText = [], editDate = ''2024-07-09''\<rparr>
          (run utc trip_events)) ! 1) = ''Plan trip'' \<and>
   dueDate (snd (handleSave utc (run utc trip_events ! 1)
          \<lparr>isEditing = True, editText = [], editDate = ''2024-07-09''\<rparr>
          (run utc trip_events)) ! 1) = Some 1719792000000 \<and>
   editText (fst (handleSave utc (run utc trip_events ! 1)
          \<lparr>isEditing = True, editText = [], editDate = ''2024-07-09''\<rparr>
          (run utc trip_events))) = ''Plan trip'' \<and>
   snd (handleSave utc (run utc trip_events ! 1)
          \<lparr>isEditing = True, editText = '' Plan the trip '', editDate = ''2024-07-09''\<rparr>
          (run utc trip_events)) ! 1
     \<in> set (snd (handleSave utc (run utc trip_events ! 1)
          \<lparr>isEditing = True, editText = '' Plan the trip '', editDate = ''2024-07-09''\<rparr>
          (run utc trip_events))) \<and>
   snd (handleSave utc (run utc trip_events ! 1)
          \<lparr>isEditing = True, editText = '' Plan the trip '', editDate = ''2024-07-09''\<rparr>
          (run utc trip_events)) ! 1
     \<notin> set (run utc trip_events) \<and>
   trim (task_text (snd (handleSave utc (run utc trip_events ! 1)
          \<lparr>isEditing = True, editText = '' Plan the trip '', editDate = ''2024-07-09''\<rparr>
          (run utc trip_events)) ! 1)) \<noteq> []"
proof -
  let ?blank = "\<lparr>isEditing = True, editText = [], editDate = ''2024-07-09''\<rparr>"
  let ?other = "\<lparr>isEditing = True, editText = '' Plan the trip '', editDate = ''2024-07-09''\<rparr>"
  let ?task = "run utc trip_events ! 1"
  let ?t = "snd (handleSave utc ?task ?other (run utc trip_events)) ! 1"
  have h: "trim (editText ?blank) = [] \<and> 1 < length (run utc trip_events)" by code_simp
  have v: "task_id ?task = ''a'' \<and> task_text ?task = ''Plan trip'' \<and>
    dueDate ?task = Some 1719792000000"
    by code_simp
  have g: "?t \<in> set (snd (handleSave utc ?task ?other (run utc trip_events))) \<and>
    ?t \<notin> set (run utc trip_events)"
    by code_simp
  from h
    blank_save_reverts [where st = ?blank and rt = utc and task = ?task
      and ts = "run utc trip_events" and k = 1]
  have r: "snd (handleSave utc ?task ?blank (run utc trip_events)) = run utc trip_events \<and>
    editText (fst (handleSave utc ?task ?blank (run utc trip_events))) = task_text ?task \<and>
    task_text (snd (handleSave utc ?task ?blank (run utc trip_events)) ! 1) = task_text ?task \<and>
    dueDate (snd (handleSave utc ?task ?blank (run utc trip_events)) ! 1) = dueDate ?task"
    by blast
  from g
    blank_save_reverts [where st = ?other and rt = utc and task = ?task
      and ts = "run utc trip_events" and t = ?t]
  have n: "trim (task_text ?t) \<noteq> []" by blast
  from h v g r n show ?thesis by simp
qed

theorem suggestSubtasks_never_rejects_witness:
  "apiKey no_key_service = [] \<and>
   outcome (suggestSubtasks no_key_service ''Plan trip'') = Fulfilled (JArr []) \<and>
   requests (suggestSubtasks no_key_service ''Plan trip'') = [] \<and>
   apiKey offline_service \<noteq> [] \<and>
   generateContent offline_service (request_for ''Plan trip'') =
     Rejected (NetworkError ''fetch failed'') \<and>
   outcome (suggestSubtasks offline_service ''Plan trip'') = Fulfilled (JArr []) \<and>
   apiKey garbled_service \<noteq> [] \<and>
   generateContent garbled_service (request_for ''Plan trip'') = Fulfilled (Some ''{sub'') \<and>
   JSON_parse garbled_service ''{sub'' = Inl (SyntaxError ''Unexpected token s'') \<and>
   outcome (suggestSubtasks garbled_service ''Plan trip'') = Fulfilled (JArr []) \<and>
   apiKey empty_object_service \<noteq> [] \<and>
   generateContent empty_object_service (request_for ''Plan trip'') = Fulfilled (Some ''{}'') \<and>
   JSON_parse empty_object_service ''{}'' = Inr (JObj []) \<and>
   get_prop (JObj []) ''subtasks'' = Inr None \<and>
   outcome (suggestSubtasks empty_object_service ''Plan trip'') = Fulfilled (JArr [])"
proof -
  have a: "apiKey no_key_service = []"
    by (simp add: no_key_service_def)
  have b: "apiKey offline_service \<noteq> [] \<and>
    generateContent offline_service (request_for ''Plan trip'') =
      Rejected (NetworkError ''fetch failed'')"
    by (simp add: offline_service_def)
  have c: "apiKey garbled_service \<noteq> [] \<and>
    generateContent garbled_service (request_for ''Plan trip'') = Fulfilled (Some ''{sub'') \<and>
    JSON_parse garbled_service ''{sub'' = Inl (SyntaxError ''Unexpected token s'')"
    by (simp add: garbled_service_def)
  have d: "apiKey empty_object_service \<noteq> [] \<and>
    generateContent empty_object_service (request_for ''Plan trip'') = Fulfilled (Some ''{}'') \<and>
    JSON_parse empty_object_service ''{}'' = Inr (JObj []) \<and>
    get_prop (JObj []) ''subtasks'' = Inr None"
    by (simp add: empty_object_service_def)
  from a suggestSubtasks_never_rejects [of no_key_service "''Plan trip''"]
  have 1: "outcome (suggestSubtasks no_key_service ''Plan trip'') = Fulfilled (JArr []) \<and>
    requests (suggestSubtasks no_key_service ''Plan trip'') = []"
    by blast
  from b suggestSubtasks_never_rejects [of offline_service "''Plan trip''" _
      "NetworkError ''fetch failed''"]
  have 2: "outcome (suggestSubtasks offline_service ''Plan trip'') = Fulfilled (JArr [])"
    by blast
  from c suggestSubtasks_never_rejects [of garbled_service "''Plan trip''" _
      "SyntaxError ''Unexpected token s''" "''{sub''"]
  have 3: "outcome (suggestSubtasks garbled_service ''Plan trip'') = Fulfilled (JArr [])"
    by blast
  from d suggestSubtasks_never_rejects [of empty_object_service "''Plan trip''" _ _
      "''{}''" "JObj []"]
  have 4: "outcome (suggestSubtasks empty_object_service ''Plan trip'') = Fulfilled (JArr [])"
    by blast
  from a b c d 1 2 3 4 show ?thesis by blast
qed

end
